theory Spec2Isabelle
  imports Main
begin

section \<open>JavaScript values\<close>

text \<open>
  The agent SDKs pass untyped JavaScript values around: the context bag of a run, the
  fields a caller may overwrite on an agent, the analysis parsed from a completion and
  the results of the tools. They are modelled as JSON-shaped values. A number is held as
  the text JavaScript prints for it (\<^verbatim>\<open>2000\<close>, \<^verbatim>\<open>0.7\<close>, \<^verbatim>\<open>1e+21\<close>, \<^verbatim>\<open>NaN\<close>), which
  determines the number; strings are lists of 8-bit characters; an object holds each
  key once.
\<close>

datatype jsval =
    JUndefined
  | JNull
  | JBool bool
  | JNum string
  | JStr string
  | JArr "jsval list"
  | JObj "(string \<times> jsval) list"

text \<open>Truthiness, as \<^verbatim>\<open>if (v)\<close>, \<^verbatim>\<open>!v\<close> and \<^verbatim>\<open>a || b\<close> test it.\<close>

fun truthy :: "jsval \<Rightarrow> bool" where
  "truthy JUndefined = False"
| "truthy JNull = False"
| "truthy (JBool b) = b"
| "truthy (JNum n) = (n \<noteq> ''0'' \<and> n \<noteq> ''NaN'')"
| "truthy (JStr s) = (s \<noteq> [])"
| "truthy (JArr xs) = True"
| "truthy (JObj kvs) = True"

text \<open>The double and the single quotation mark, for the messages that contain them.\<close>

definition dq :: string where
  "dq = [CHR 0x22]"

definition sq :: string where
  "sq = [CHR 0x27]"

definition js_or :: "jsval \<Rightarrow> jsval \<Rightarrow> jsval" where
  "js_or a b = (if truthy a then a else b)"

fun join :: "string \<Rightarrow> string list \<Rightarrow> string" where
  "join sep [] = []"
| "join sep [x] = x"
| "join sep (x # y # ys) = x @ sep @ join sep (y # ys)"

text \<open>
  The string conversion of template literals and of property keys: an array is its
  elements joined by commas, with \<^verbatim>\<open>null\<close> and \<^verbatim>\<open>undefined\<close> elements empty.
\<close>

fun to_string :: "jsval \<Rightarrow> string" where
  "to_string JUndefined = ''undefined''"
| "to_string JNull = ''null''"
| "to_string (JBool b) = (if b then ''true'' else ''false'')"
| "to_string (JNum n) = n"
| "to_string (JStr s) = s"
| "to_string (JArr xs) =
     join '','' (map (\<lambda>x. if x = JUndefined \<or> x = JNull then [] else to_string x) xs)"
| "to_string (JObj kvs) = ''[object Object]''"

text \<open>
  Reading a property of a value, for the property names the pipeline reads from an
  analysis (\<^verbatim>\<open>requiredTools\<close>, \<^verbatim>\<open>complexity\<close>) and from the context of a run
  (\<^verbatim>\<open>conversationId\<close>, \<^verbatim>\<open>query\<close>, \<^verbatim>\<open>maxResults\<close>, \<^verbatim>\<open>filePath\<close>, \<^verbatim>\<open>action\<close>,
  \<^verbatim>\<open>command\<close>): \<^verbatim>\<open>null\<close> and \<^verbatim>\<open>undefined\<close> throw a TypeError, an object gives the
  stored value, everything else \<^verbatim>\<open>undefined\<close>.
\<close>

fun get_prop :: "jsval \<Rightarrow> string \<Rightarrow> string + jsval" where
  "get_prop JUndefined k =
     Inl (''Cannot read properties of undefined (reading '' @ sq @ k @ sq @ '')'')"
| "get_prop JNull k = Inl (''Cannot read properties of null (reading '' @ sq @ k @ sq @ '')'')"
| "get_prop (JObj kvs) k = Inr (case map_of kvs k of None \<Rightarrow> JUndefined | Some v \<Rightarrow> v)"
| "get_prop v k = Inr JUndefined"

text \<open>
  What \<^verbatim>\<open>for (const x of v)\<close> runs over: the elements of an array, the characters of
  a string; any other value is not iterable and the loop header throws.
\<close>

fun js_iterate :: "jsval \<Rightarrow> string + jsval list" where
  "js_iterate (JArr xs) = Inr xs"
| "js_iterate (JStr s) = Inr (map (\<lambda>c. JStr [c]) s)"
| "js_iterate v = Inl ''plan.requiredTools is not iterable''"

text \<open>
  The fields of the context of a run, once the context is known not to be \<^verbatim>\<open>null\<close>:
  those of an object; a number, a string, a boolean or an array has none of the fields
  the pipeline reads.
\<close>

type_synonym bag = "string \<Rightarrow> jsval option"

definition bag_get :: "bag \<Rightarrow> string \<Rightarrow> jsval" where
  "bag_get c k = (case c k of None \<Rightarrow> JUndefined | Some v \<Rightarrow> v)"

fun bag_of :: "jsval \<Rightarrow> bag" where
  "bag_of (JObj kvs) = map_of kvs"
| "bag_of v = Map.empty"

section \<open>Insertion-ordered maps\<close>

text \<open>
  A JavaScript \<^verbatim>\<open>Map\<close> keeps its entries in insertion order; setting an existing key
  replaces the value in place. It compares a string, a number or a boolean used as key
  by value, an object or an array by identity.
\<close>

datatype key = ByValue jsval | ByIdentity nat

fun Map_get :: "('k \<times> 'v) list \<Rightarrow> 'k \<Rightarrow> 'v option" where
  "Map_get [] k = None"
| "Map_get ((k', v) # m) k = (if k' = k then Some v else Map_get m k)"

definition Map_has :: "('k \<times> 'v) list \<Rightarrow> 'k \<Rightarrow> bool" where
  "Map_has m k = (Map_get m k \<noteq> None)"

fun Map_set :: "('k \<times> 'v) list \<Rightarrow> 'k \<Rightarrow> 'v \<Rightarrow> ('k \<times> 'v) list" where
  "Map_set [] k v = [(k, v)]"
| "Map_set ((k', v') # m) k v = (if k' = k then (k, v) # m else (k', v') # Map_set m k v)"

definition Map_values :: "('k \<times> 'v) list \<Rightarrow> 'v list" where
  "Map_values m = map snd m"

section \<open>AgentSDK: data model\<close>

text \<open>
  The agent record of \<^verbatim>\<open>createAgent\<close>. The seven fields \<^verbatim>\<open>updateAgent\<close> may overwrite
  hold whatever value the caller supplied; \<^verbatim>\<open>updated\<close> is absent until the first update.
\<close>

record agent =
  a_id :: string
  a_name :: string
  a_description :: jsval
  a_capabilities :: jsval
  a_systemPrompt :: jsval
  a_tools :: jsval
  a_personality :: jsval
  a_memory :: jsval
  a_max_tokens :: jsval
  a_temperature :: jsval
  a_created :: string
  a_conversations :: "jsval list"
  a_status :: string
  a_updated :: "string option"

datatype message =
    UserMessage (m_content: string) (m_timestamp: string)
  | AssistantMessage (m_response: "string option") (m_toolCalls: "(jsval \<times> jsval) list option")
      (m_timestamp: string)

record conversation =
  c_id :: jsval
  c_agentId :: string
  c_messages :: "message list"
  c_created :: string

record plan =
  p_steps :: string
  p_requiredTools :: jsval
  p_complexity :: jsval
  p_error :: "string option"

record execution =
  x_results :: "jsval list"
  x_toolCalls :: "(jsval \<times> jsval) list"
  x_status :: string
  x_error :: "string option"

record outcome =
  r_agentId :: string
  r_agentName :: string
  r_task :: string
  r_analysis :: jsval
  r_plan :: plan
  r_execution :: execution
  r_response :: string
  r_toolCalls :: "(jsval \<times> jsval) list"
  r_timestamp :: string

text \<open>
  The value a run returns: \<^verbatim>\<open>{success: true, ...}\<close> with the outcome of the four stages, or
  \<^verbatim>\<open>{success: false, error, agentId, task}\<close>.
\<close>

datatype run_result =
    Success (the_outcome: outcome)
  | Failure (f_error: string) (f_agentId: string) (f_task: string)

fun success :: "run_result \<Rightarrow> bool" where
  "success (Success b) = True"
| "success (Failure e i t) = False"

record sdk =
  agents :: "(string \<times> agent) list"
  conversations :: "(key \<times> conversation) list"

section \<open>AgentSDK: the collaborators of a run\<close>

datatype stage = AnalyzeStage | PlanStage | RespondStage

text \<open>
  What the OpenAI client does when asked for a completion: it throws with a message, or
  answers with the content of the first choice.
\<close>

datatype api_outcome = ApiThrows string | ApiReturns string

text \<open>
  Everything a run takes from outside: the identifier \<^verbatim>\<open>uuidv4()\<close> gives, the
  identity of the value passed as \<^verbatim>\<open>conversationId\<close> when it is an object, the clock
  at each of the four places that read it, whether the OpenAI client exists, what it
  does at each stage, \<^verbatim>\<open>JSON.parse\<close> (None when it throws), and the three tools (Inl
  when the call throws).
\<close>

record env =
  uuidv4 :: string
  identity :: nat
  new_Date :: "nat \<Rightarrow> string"
  openai :: bool
  create :: "stage \<Rightarrow> api_outcome"
  JSON_parse :: "string \<Rightarrow> jsval option"
  search :: "jsval \<Rightarrow> jsval \<Rightarrow> string + jsval"
  searchInFile :: "jsval \<Rightarrow> jsval \<Rightarrow> string + jsval"
  execute :: "bag \<Rightarrow> string + jsval"

definition createChatCompletion :: "bool \<Rightarrow> api_outcome \<Rightarrow> string + string" where
  "createChatCompletion client outcome =
     (if \<not> client then Inl ''OpenAI client not initialized. Please check your API key.''
      else case outcome of
             ApiThrows m \<Rightarrow> Inl (''OpenAI API Error: '' @ m)
           | ApiReturns content \<Rightarrow> Inr content)"

section \<open>AgentSDK: the tool registry and the dispatcher\<close>

text \<open>
  \<^verbatim>\<open>this.tools\<close> is an object literal with three own properties. A property read
  \<^verbatim>\<open>this.tools[toolName]\<close> also finds what every object inherits from
  \<^verbatim>\<open>Object.prototype\<close>; all of those are truthy.
\<close>

datatype tool_slot = WebSearchAgent | FileSearchAgent | ComputerUseAgent | Inherited

definition initializeTools :: "string list" where
  "initializeTools = [''web_search'', ''file_search'', ''computer_use'']"

definition Object_prototype :: "string list" where
  "Object_prototype =
     [''constructor'', ''__defineGetter__'', ''__defineSetter__'', ''hasOwnProperty'',
      ''__lookupGetter__'', ''__lookupSetter__'', ''isPrototypeOf'', ''propertyIsEnumerable'',
      ''toString'', ''valueOf'', ''__proto__'', ''toLocaleString'']"

definition tools_get :: "string \<Rightarrow> tool_slot option" where
  "tools_get k =
     (if k = ''web_search'' then Some WebSearchAgent
      else if k = ''file_search'' then Some FileSearchAgent
      else if k = ''computer_use'' then Some ComputerUseAgent
      else if k \<in> set Object_prototype then Some Inherited
      else None)"

definition failure :: "string \<Rightarrow> jsval \<Rightarrow> jsval" where
  "failure msg toolName =
     JObj [(''success'', JBool False), (''error'', JStr msg), (''tool'', toolName)]"

text \<open>The body of the \<^verbatim>\<open>try\<close> block of \<^verbatim>\<open>executeTool\<close>: Inl is a thrown error's message.\<close>

definition executeTool_try :: "env \<Rightarrow> jsval \<Rightarrow> bag \<Rightarrow> string + jsval" where
  "executeTool_try e toolName context =
     (case tools_get (to_string toolName) of
        None \<Rightarrow> Inl (''Tool not found: '' @ to_string toolName)
      | Some tool \<Rightarrow>
          if toolName = JStr ''web_search'' \<and> truthy (bag_get context ''query'')
          then search e (bag_get context ''query'') (js_or (bag_get context ''maxResults'') (JNum ''5''))
          else if toolName = JStr ''file_search''
                  \<and> truthy (bag_get context ''filePath'') \<and> truthy (bag_get context ''query'')
          then searchInFile e (bag_get context ''filePath'') (bag_get context ''query'')
          else if toolName = JStr ''computer_use''
                  \<and> (truthy (bag_get context ''action'') \<or> truthy (bag_get context ''command''))
          then execute e context
          else Inl (''Tool '' @ to_string toolName @ '' requires additional context''))"

definition executeTool :: "env \<Rightarrow> jsval \<Rightarrow> bag \<Rightarrow> jsval" where
  "executeTool e toolName context =
     (case executeTool_try e toolName context of
        Inl msg \<Rightarrow> failure msg toolName
      | Inr v \<Rightarrow> v)"

text \<open>The loop of \<^verbatim>\<open>executePlan\<close>, with the two arrays it pushes to.\<close>

fun dispatch ::
  "env \<Rightarrow> bag \<Rightarrow> jsval list \<Rightarrow> jsval list \<times> (jsval \<times> jsval) list
     \<Rightarrow> jsval list \<times> (jsval \<times> jsval) list" where
  "dispatch e context [] acc = acc"
| "dispatch e context (toolName # rest) (results, toolCalls) =
     (if tools_get (to_string toolName) \<noteq> None
      then let toolResult = executeTool e toolName context
           in dispatch e context rest
                (results @ [toolResult], toolCalls @ [(toolName, toolResult)])
      else dispatch e context rest (results, toolCalls))"

definition executePlan :: "env \<Rightarrow> agent \<Rightarrow> plan \<Rightarrow> bag \<Rightarrow> execution" where
  "executePlan e agent pl context =
     (case js_iterate (p_requiredTools pl) of
        Inl msg \<Rightarrow>
          \<lparr>x_results = [], x_toolCalls = [], x_status = ''failed'', x_error = Some msg\<rparr>
      | Inr names \<Rightarrow>
          (let (results, toolCalls) = dispatch e context names ([], [])
           in \<lparr>x_results = results, x_toolCalls = toolCalls, x_status = ''completed'',
                x_error = None\<rparr>))"

section \<open>AgentSDK: the stages that ask for a completion\<close>

definition analyzeTask :: "env \<Rightarrow> agent \<Rightarrow> string \<Rightarrow> bag \<Rightarrow> jsval" where
  "analyzeTask e agent task context =
     (case (case a_tools agent of
              JArr ts \<Rightarrow> createChatCompletion (openai e) (create e AnalyzeStage)
            | JUndefined \<Rightarrow> Inl (''Cannot read properties of undefined (reading '' @ sq @ ''join'' @ sq @ '')'')
            | JNull \<Rightarrow> Inl (''Cannot read properties of null (reading '' @ sq @ ''join'' @ sq @ '')'')
            | _ \<Rightarrow> Inl ''agent.tools.join is not a function'') of
        Inl msg \<Rightarrow>
          JObj [(''taskType'', JStr ''unknown''), (''requiredTools'', JArr []),
                (''complexity'', JStr ''unknown''), (''error'', JStr msg)]
      | Inr content \<Rightarrow>
          (case JSON_parse e content of
             Some analysis \<Rightarrow> analysis
           | None \<Rightarrow>
               JObj [(''taskType'', JStr ''general''), (''requiredTools'', a_tools agent),
                     (''complexity'', JStr ''medium''),
                     (''estimatedSteps'',
                        JArr [JStr ''Analyze task'', JStr ''Execute'', JStr ''Respond'']),
                     (''rawAnalysis'', JStr content)]))"

definition fallback_steps :: "string \<Rightarrow> string" where
  "fallback_steps task =
     ''1. Analyze the task: '' @ dq @ task @ dq @ [CHR 0x0A]
       @ ''2. Execute appropriate actions'' @ [CHR 0x0A] @ ''3. Provide results''"

definition createExecutionPlan :: "env \<Rightarrow> agent \<Rightarrow> string \<Rightarrow> jsval \<Rightarrow> bag \<Rightarrow> plan" where
  "createExecutionPlan e agent task analysis context =
     (case (case createChatCompletion (openai e) (create e PlanStage) of
              Inl msg \<Rightarrow> Inl msg
            | Inr content \<Rightarrow>
                (case get_prop analysis ''requiredTools'' of
                   Inl msg \<Rightarrow> Inl msg
                 | Inr tools \<Rightarrow>
                     (case get_prop analysis ''complexity'' of
                        Inl msg \<Rightarrow> Inl msg
                      | Inr complexity \<Rightarrow>
                          Inr \<lparr>p_steps = content,
                               p_requiredTools = js_or tools (JArr []),
                               p_complexity = js_or complexity (JStr ''medium''),
                               p_error = None\<rparr>))) of
        Inl msg \<Rightarrow>
          \<lparr>p_steps = fallback_steps task, p_requiredTools = JArr [],
           p_complexity = JStr ''unknown'', p_error = Some msg\<rparr>
      | Inr pl \<Rightarrow> pl)"

definition apology :: "string \<Rightarrow> string \<Rightarrow> string" where
  "apology task msg =
     ''I completed the task '' @ dq @ task @ dq
       @ '' but encountered an error generating the response: '' @ msg"

definition generateFinalResponse ::
  "env \<Rightarrow> agent \<Rightarrow> string \<Rightarrow> execution \<Rightarrow> bag \<Rightarrow> string" where
  "generateFinalResponse e agent task ex context =
     (case createChatCompletion (openai e) (create e RespondStage) of
        Inl msg \<Rightarrow> apology task msg
      | Inr content \<Rightarrow> content)"

section \<open>AgentSDK: a run\<close>

definition processAgentTask ::
  "env \<Rightarrow> agent \<Rightarrow> string \<Rightarrow> conversation \<Rightarrow> bag \<Rightarrow> run_result" where
  "processAgentTask e agent task conv context =
     (let analysis = analyzeTask e agent task context;
          pl = createExecutionPlan e agent task analysis context;
          ex = executePlan e agent pl context;
          response = generateFinalResponse e agent task ex context
      in Success \<lparr>r_agentId = a_id agent, r_agentName = a_name agent, r_task = task,
                  r_analysis = analysis, r_plan = pl, r_execution = ex,
                  r_response = response, r_toolCalls = x_toolCalls ex,
                  r_timestamp = new_Date e 1\<rparr>)"

text \<open>
  The two turns \<^verbatim>\<open>executeAgent\<close> pushes after the task was processed. A failed result
  has no \<^verbatim>\<open>response\<close> and no \<^verbatim>\<open>toolCalls\<close>: the assistant turn then holds
  \<^verbatim>\<open>undefined\<close> for both.
\<close>

fun turns :: "env \<Rightarrow> string \<Rightarrow> run_result \<Rightarrow> message list" where
  "turns e task (Success b) =
     [UserMessage task (new_Date e 2),
      AssistantMessage (Some (r_response b)) (Some (r_toolCalls b)) (new_Date e 3)]"
| "turns e task (Failure msg i t) =
     [UserMessage task (new_Date e 2), AssistantMessage None None (new_Date e 3)]"

text \<open>The key under which the conversation store holds a conversation id.\<close>

definition Map_key :: "env \<Rightarrow> jsval \<Rightarrow> key" where
  "Map_key e v =
     (case v of
        JArr xs \<Rightarrow> ByIdentity (identity e)
      | JObj kvs \<Rightarrow> ByIdentity (identity e)
      | _ \<Rightarrow> ByValue v)"

text \<open>
  \<^verbatim>\<open>executeAgent(agentId, task, context = {})\<close>: the default replaces an omitted
  (\<^verbatim>\<open>undefined\<close>) context only, so \<^verbatim>\<open>null\<close> reaches \<^verbatim>\<open>context.conversationId\<close>,
  which throws; the outer \<^verbatim>\<open>catch\<close> turns that into the failed result.
\<close>

definition executeAgent ::
  "env \<Rightarrow> sdk \<Rightarrow> string \<Rightarrow> string \<Rightarrow> jsval \<Rightarrow> run_result \<times> sdk" where
  "executeAgent e s agentId task arg =
     (let context = (if arg = JUndefined then JObj [] else arg)
      in case Map_get (agents s) agentId of
           None \<Rightarrow> (Failure ''Agent not found'' agentId task, s)
         | Some agent \<Rightarrow>
             (case get_prop context ''conversationId'' of
                Inl msg \<Rightarrow> (Failure msg agentId task, s)
              | Inr given \<Rightarrow>
                  (let conversationId = js_or given (JStr (uuidv4 e));
                       k = Map_key e conversationId;
                       convs =
                         (if \<not> Map_has (conversations s) k
                          then Map_set (conversations s) k
                                 \<lparr>c_id = conversationId, c_agentId = agentId, c_messages = [],
                                  c_created = new_Date e 0\<rparr>
                          else conversations s)
                   in case Map_get convs k of
                        None \<Rightarrow>
                          (Failure
                             (''Cannot read properties of undefined (reading '' @ sq
                                @ ''messages'' @ sq @ '')'')
                             agentId task,
                           s\<lparr>conversations := convs\<rparr>)
                      | Some conv \<Rightarrow>
                          (let executionResult =
                                 processAgentTask e agent task conv (bag_of context);
                               conv' = conv\<lparr>c_messages :=
                                         c_messages conv @ turns e task executionResult\<rparr>
                           in (executionResult,
                               s\<lparr>conversations := Map_set convs k conv'\<rparr>)))))"

section \<open>AgentSDK: the registry\<close>

record summary =
  s_id :: string
  s_name :: string
  s_description :: jsval
  s_capabilities :: jsval
  s_tools :: jsval
  s_status :: string
  s_created :: string
  s_conversationCount :: nat

record listing =
  l_agents :: "summary list"
  l_total :: nat
  l_availableTools :: "string list"

definition summarize :: "agent \<Rightarrow> summary" where
  "summarize agent =
     \<lparr>s_id = a_id agent, s_name = a_name agent, s_description = a_description agent,
      s_capabilities = a_capabilities agent, s_tools = a_tools agent,
      s_status = a_status agent, s_created = a_created agent,
      s_conversationCount = length (a_conversations agent)\<rparr>"

definition listAgents :: "sdk \<Rightarrow> listing" where
  "listAgents s =
     (let agentList = map summarize (Map_values (agents s))
      in \<lparr>l_agents = agentList, l_total = length agentList,
          l_availableTools = initializeTools\<rparr>)"

definition allowedUpdates :: "string list" where
  "allowedUpdates =
     [''description'', ''capabilities'', ''systemPrompt'', ''tools'', ''personality'',
      ''max_tokens'', ''temperature'']"





section \<open>ResponsesAPI\<close>

text \<open>
  \<^verbatim>\<open>chat\<close> never throws: a failed completion becomes \<^verbatim>\<open>{success: false, error}\<close>.
\<close>

record chat_response =
  cr_success :: bool
  cr_response :: jsval
  cr_error :: "string option"

definition chat :: "bool \<Rightarrow> api_outcome \<Rightarrow> chat_response" where
  "chat client outcome =
     (case createChatCompletion client outcome of
        Inr content \<Rightarrow>
          \<lparr>cr_success = True, cr_response = JStr content, cr_error = None\<rparr>
      | Inl msg \<Rightarrow>
          \<lparr>cr_success = False, cr_response = JUndefined, cr_error = Some msg\<rparr>)"

section \<open>OpenAIAgentsSDK: the keyword patterns of the triage branch\<close>

text \<open>
  Both patterns have the shape \<^verbatim>\<open>/\b(w1|w2|...)\b/i\<close>. A word character is a letter,
  a digit or the underscore; \<^verbatim>\<open>\b\<close> holds at a position where exactly one of the
  two neighbouring characters is a word character (the ends of the input count as
  non-word). With the \<^verbatim>\<open>i\<close> flag two characters match when their upper-case forms
  are equal.
\<close>

definition is_word_char :: "char \<Rightarrow> bool" where
  "is_word_char c =
     (let n = (of_char c :: nat)
      in (97 \<le> n \<and> n \<le> 122) \<or> (65 \<le> n \<and> n \<le> 90) \<or> (48 \<le> n \<and> n \<le> 57) \<or> n = 95)"

definition toUpperCase :: "char \<Rightarrow> char" where
  "toUpperCase c =
     (let n = (of_char c :: nat) in if 97 \<le> n \<and> n \<le> 122 then char_of (n - 32) else c)"

definition word_at :: "string \<Rightarrow> nat \<Rightarrow> bool" where
  "word_at s i = (i < length s \<and> is_word_char (s ! i))"

definition boundary :: "string \<Rightarrow> nat \<Rightarrow> bool" where
  "boundary s i = ((i \<noteq> 0 \<and> word_at s (i - 1)) \<noteq> word_at s i)"

fun matches_literal :: "string \<Rightarrow> string \<Rightarrow> bool" where
  "matches_literal [] s = True"
| "matches_literal (p # ps) [] = False"
| "matches_literal (p # ps) (c # cs) = (toUpperCase p = toUpperCase c \<and> matches_literal ps cs)"

definition matches_at :: "string list \<Rightarrow> string \<Rightarrow> nat \<Rightarrow> bool" where
  "matches_at alternatives s i =
     (boundary s i \<and>
      list_ex (\<lambda>w. matches_literal w (drop i s) \<and> boundary s (i + length w)) alternatives)"

definition regex_test :: "string list \<Rightarrow> string \<Rightarrow> bool" where
  "regex_test alternatives s = list_ex (matches_at alternatives s) [0 ..< Suc (length s)]"

definition history_words :: "string list" where
  "history_words =
     [''history'', ''historical'', ''when'', ''where'', ''who'', ''date'', ''year'', ''century'',
      ''war'', ''empire'', ''civilization'', ''ancient'', ''medieval'', ''renaissance'',
      ''revolution'', ''battle'', ''king'', ''queen'', ''president'', ''capital'', ''country'',
      ''nation'']"

definition math_words :: "string list" where
  "math_words =
     [''solve'', ''calculate'', ''equation'', ''math'', ''algebra'', ''geometry'',
      ''trigonometry'', ''calculus'', ''+'', ''-'', ''*'', ''/'', ''='', ''x'', ''y'', ''formula'',
      ''theorem'', ''proof'', ''derivative'', ''integral'', ''matrix'', ''vector'']"

definition isHistoryQuestion :: "string \<Rightarrow> bool" where
  "isHistoryQuestion input = regex_test history_words input"

definition isMathQuestion :: "string \<Rightarrow> bool" where
  "isMathQuestion input = regex_test math_words input"

section \<open>OpenAIAgentsSDK: the fallback run\<close>

definition history_via_triage :: "string \<times> string" where
  "history_via_triage =
     (''History Tutor (via Triage)'',
      ''You are a History Tutor. The Triage Agent has routed this history question to you. Provide detailed, accurate information about historical events, dates, people, and context.'')"

definition math_via_triage :: "string \<times> string" where
  "math_via_triage =
     (''Math Tutor (via Triage)'',
      ''You are a Math Tutor. The Triage Agent has routed this math question to you. Help solve the problem step by step, show your work clearly, and explain your reasoning.'')"

definition general_via_triage :: "string \<times> string" where
  "general_via_triage =
     (''General Assistant (via Triage)'',
      ''You are a helpful general assistant. The Triage Agent determined this question doesn'' @ sq
        @ ''t clearly fit history or math categories, so provide a helpful general response. If the question seems to relate to history or math, mention that and provide appropriate guidance.'')"

text \<open>The \<^verbatim>\<open>switch\<close> of \<^verbatim>\<open>runFallbackAgent\<close>: the agent name and the system prompt.\<close>

definition configure :: "string \<Rightarrow> string \<Rightarrow> string \<times> string" where
  "configure agentType input =
     (if agentType = ''history'' then
        (''History Tutor'',
         ''You are an expert History Tutor. Provide detailed, accurate information about historical events, dates, people, and context. Explain things clearly and include interesting historical facts when relevant.'')
      else if agentType = ''math'' then
        (''Math Tutor'',
         ''You are an expert Math Tutor. Help solve math problems step by step. Show your work clearly, explain your reasoning, and provide examples when helpful. You can handle algebra, geometry, calculus, and other mathematical topics.'')
      else if agentType = ''triage'' then
        (if isHistoryQuestion input \<and> \<not> isMathQuestion input then history_via_triage
         else if isMathQuestion input \<and> \<not> isHistoryQuestion input then math_via_triage
         else general_via_triage)
      else
        (''Custom Agent'',
         ''You are a helpful AI assistant. Provide accurate, detailed responses to user questions.''))"

text \<open>
  The value \<^verbatim>\<open>runAgent\<close> and \<^verbatim>\<open>runFallbackAgent\<close> return:
  \<^verbatim>\<open>{success: true, output, finalAgent, handoffs, toolsUsed}\<close> or \<^verbatim>\<open>{success: false, error}\<close>.
\<close>

datatype agent_result =
    RunSuccess (ar_output: jsval) (ar_finalAgent: jsval) (ar_handoffs: jsval)
      (ar_toolsUsed: jsval)
  | RunFailure (ar_error: string)

text \<open>
  What a run of the OpenAIAgentsSDK takes from outside: \<^verbatim>\<open>run\<close> of the agents
  framework (Inl when it throws), whether the OpenAI client exists and what it does with
  the one completion request of the fallback.
\<close>

datatype Agent = Agent (name: string) (instructions: string) (handoff_agents: "Agent list")

record run_output =
  finalOutput :: jsval
  finalAgent :: jsval
  handoffs :: jsval
  toolsUsed :: jsval

record world =
  run :: "Agent \<Rightarrow> string \<Rightarrow> string + run_output"
  client :: bool
  completion :: api_outcome

definition runFallbackAgent :: "world \<Rightarrow> string \<Rightarrow> string \<Rightarrow> agent_result" where
  "runFallbackAgent w agentType input =
     (let (agentName, systemPrompt) = configure agentType input;
          response = chat (client w) (completion w)
      in if cr_success response \<and> truthy (cr_response response)
         then RunSuccess (cr_response response) (JStr agentName)
                (if agentType = ''triage'' then JArr [JStr agentName] else JArr [])
                (JArr [])
         else RunFailure
                (''Fallback agent failed: '' @ ''Failed to get response from fallback implementation''))"

section \<open>OpenAIAgentsSDK: the primary run and the fallback flag\<close>

record agents_sdk =
  default_agents :: "(string \<times> Agent) list"
  customAgents :: "(string \<times> Agent) list"
  useFallback :: bool

definition initializeDefaultAgents :: "(string \<times> Agent) list" where
  "initializeDefaultAgents =
     (let historyTutorAgent = Agent ''History Tutor''
            ''You provide assistance with historical queries. Explain important events and context clearly. You have access to a wealth of historical knowledge and can provide interesting historical facts.'' [];
          mathTutorAgent = Agent ''Math Tutor''
            ''You provide help with math problems. Explain your reasoning at each step and include examples. You can perform calculations and help solve mathematical problems.'' [];
          triageAgent = Agent ''Triage Agent''
            (''You determine which agent to use based on the user'' @ sq
               @ ''s question. Route history questions to the History Tutor and math questions to the Math Tutor. For general questions, provide a direct response.'')
            [historyTutorAgent, mathTutorAgent]
      in Map_set (Map_set (Map_set [] ''history'' historyTutorAgent) ''math'' mathTutorAgent)
           ''triage'' triageAgent)"

definition constructor :: agents_sdk where
  "constructor =
     \<lparr>default_agents = initializeDefaultAgents, customAgents = [], useFallback = False\<rparr>"

text \<open>
  \<^verbatim>\<open>parseInt\<close> on a string: white space is skipped, a sign is read, then the longest
  run of digits (hexadecimal after \<^verbatim>\<open>0x\<close>); None is \<^verbatim>\<open>NaN\<close>.
\<close>

definition is_space :: "char \<Rightarrow> bool" where
  "is_space c = (of_char c \<in> {9, 10, 11, 12, 13, 32, 160 :: nat})"

definition digit_value :: "char \<Rightarrow> nat option" where
  "digit_value c =
     (let n = (of_char c :: nat)
      in if 48 \<le> n \<and> n \<le> 57 then Some (n - 48)
         else if 97 \<le> n \<and> n \<le> 102 then Some (n - 87)
         else if 65 \<le> n \<and> n \<le> 70 then Some (n - 55)
         else None)"

fun digits :: "nat \<Rightarrow> string \<Rightarrow> nat list" where
  "digits radix [] = []"
| "digits radix (c # cs) =
     (case digit_value c of
        None \<Rightarrow> []
      | Some d \<Rightarrow> if d < radix then d # digits radix cs else [])"

definition number :: "nat \<Rightarrow> nat list \<Rightarrow> nat option" where
  "number radix ds = (if ds = [] then None else Some (foldl (\<lambda>acc d. acc * radix + d) 0 ds))"

definition unsigned :: "string \<Rightarrow> nat option" where
  "unsigned s =
     (if take 2 s = ''0x'' \<or> take 2 s = ''0X'' then number 16 (digits 16 (drop 2 s))
      else number 10 (digits 10 s))"

definition parseInt :: "string \<Rightarrow> int option" where
  "parseInt str =
     (let s = dropWhile is_space str
      in case s of
           [] \<Rightarrow> None
         | c # cs \<Rightarrow>
             if c = CHR ''-'' then map_option (\<lambda>n. - int n) (unsigned cs)
             else if c = CHR ''+'' then map_option int (unsigned cs)
             else map_option int (unsigned s))"

text \<open>\<^verbatim>\<open>str.split('-')\<close>.\<close>

fun split :: "string \<Rightarrow> string \<Rightarrow> string list" where
  "split cur [] = [cur]"
| "split cur (c # cs) = (if c = CHR ''-'' then cur # split [] cs else split (cur @ [c]) cs)"

text \<open>
  Indexing an array: \<^verbatim>\<open>undefined\<close> (None) for \<^verbatim>\<open>NaN\<close>, a negative index or one past
  the end.
\<close>

definition index :: "'a list \<Rightarrow> int option \<Rightarrow> 'a option" where
  "index xs i =
     (case i of
        None \<Rightarrow> None
      | Some j \<Rightarrow> if 0 \<le> j \<and> nat j < length xs then Some (xs ! nat j) else None)"

definition startsWith :: "string \<Rightarrow> string \<Rightarrow> bool" where
  "startsWith s pre = (take (length pre) s = pre)"

text \<open>
  The part of \<^verbatim>\<open>runAgent\<close> after the test of the flag, up to the \<^verbatim>\<open>return\<close>: Inl is
  the message of what is thrown.
\<close>

definition primary :: "world \<Rightarrow> agents_sdk \<Rightarrow> string \<Rightarrow> string \<Rightarrow> string + agent_result" where
  "primary w s agentType input =
     (case (if startsWith agentType ''custom-''
            then (let customIndex =
                        (case split [] agentType of
                           a # b # rest \<Rightarrow> parseInt b
                         | _ \<Rightarrow> None);
                      customAgentsList = Map_values (customAgents s)
                  in case index customAgentsList customIndex of
                       None \<Rightarrow> Inl ''Custom agent not found''
                     | Some agent \<Rightarrow> Inr agent)
            else (case Map_get (default_agents s) agentType of
                    None \<Rightarrow> Inl (''Agent type '' @ sq @ agentType @ sq @ '' not found'')
                  | Some agent \<Rightarrow> Inr agent)) of
        Inl msg \<Rightarrow> Inl msg
      | Inr agent \<Rightarrow>
          (case run w agent input of
             Inl msg \<Rightarrow> Inl msg
           | Inr result \<Rightarrow>
               Inr (RunSuccess (finalOutput result) (finalAgent result)
                      (js_or (handoffs result) (JArr []))
                      (js_or (toolsUsed result) (JArr [])))))"

definition runAgent :: "world \<Rightarrow> agents_sdk \<Rightarrow> string \<Rightarrow> string \<Rightarrow> agent_result \<times> agents_sdk" where
  "runAgent w s agentType input =
     (if useFallback s then (runFallbackAgent w agentType input, s)
      else case primary w s agentType input of
             Inr result \<Rightarrow> (result, s)
           | Inl msg \<Rightarrow> (runFallbackAgent w agentType input, s\<lparr>useFallback := True\<rparr>))"

section \<open>OpenAIAgentsSDK: successive runs\<close>

text \<open>
  One instance of the SDK serves every request of the process; each request calls
  \<^verbatim>\<open>runAgent\<close> on the state the previous one left. The outside world may differ from
  request to request.
\<close>

fun runAgents :: "agents_sdk \<Rightarrow> (world \<times> string \<times> string) list \<Rightarrow> agent_result list \<times> agents_sdk" where
  "runAgents s [] = ([], s)"
| "runAgents s ((w, agentType, input) # rest) =
     (let (r, s') = runAgent w s agentType input;
          (rs, s'') = runAgents s' rest
      in (r # rs, s''))"

section \<open>Example inputs\<close>

text \<open>
  A registry with one agent as \<^verbatim>\<open>createAgent\<close> stores it (no conversation recorded on
  it, never updated), an environment in which every completion request fails, and a
  context that names the conversation.
\<close>

definition agent0 :: agent where
  "agent0 =
     \<lparr>a_id = ''a1'', a_name = ''Helper'', a_description = JStr ''helps'',
      a_capabilities = JArr [], a_systemPrompt = JStr ''You are Helper.'',
      a_tools = JArr [JStr ''web_search''], a_personality = JStr ''helpful'',
      a_memory = JBool True, a_max_tokens = JNum ''2000'', a_temperature = JNum ''0.7'',
      a_created = ''t0'', a_conversations = [], a_status = ''active'', a_updated = None\<rparr>"

definition sdk0 :: sdk where
  "sdk0 = \<lparr>agents = [(''a1'', agent0)], conversations = []\<rparr>"

definition env_down :: env where
  "env_down =
     \<lparr>uuidv4 = ''u1'', identity = 0, new_Date = (\<lambda>n. ''t1''), openai = True,
      create = (\<lambda>s. ApiThrows ''down''), JSON_parse = (\<lambda>s. None),
      search = (\<lambda>q n. Inr (JObj [(''success'', JBool False)])),
      searchInFile = (\<lambda>f q. Inl ''no such file''),
      execute = (\<lambda>c. Inr (JObj [(''success'', JBool True)]))\<rparr>"

definition ctx0 :: jsval where
  "ctx0 = JObj [(''conversationId'', JStr ''c1'')]"

definition bag0 :: bag where
  "bag0 = map_of [(''conversationId'', JStr ''c1'')]"

text \<open>
  An environment whose completions are plain prose, so that \<^verbatim>\<open>JSON.parse\<close> throws,
  and an agent that declares a tool named \<^verbatim>\<open>toString\<close>.
\<close>

definition env_plain :: env where
  "env_plain =
     \<lparr>uuidv4 = ''u1'', identity = 0, new_Date = (\<lambda>n. ''t1''), openai = True,
      create = (\<lambda>s. ApiReturns ''Sure.''), JSON_parse = (\<lambda>s. None),
      search = (\<lambda>q n. Inr (JObj [(''success'', JBool False)])),
      searchInFile = (\<lambda>f q. Inl ''no such file''),
      execute = (\<lambda>c. Inr (JObj [(''success'', JBool True)]))\<rparr>"

definition agent1 :: agent where
  "agent1 = agent0\<lparr>a_id := ''a2'', a_tools := JArr [JStr ''toString'']\<rparr>"

definition sdk1 :: sdk where
  "sdk1 = \<lparr>agents = [(''a2'', agent1)], conversations = []\<rparr>"




text \<open>
  Three states of the world around the OpenAIAgentsSDK: everything works, the API key is
  refused everywhere, and the completion of the fallback arrives empty.
\<close>

definition world_up :: world where
  "world_up =
     \<lparr>run = (\<lambda>a i. Inr \<lparr>finalOutput = JStr ''1945'', finalAgent = JStr (name a),
                           handoffs = JUndefined, toolsUsed = JUndefined\<rparr>),
      client = True, completion = ApiReturns ''It ended in 1945.''\<rparr>"

definition world_down :: world where
  "world_down =
     \<lparr>run = (\<lambda>a i. Inl ''401 Incorrect API key''), client = True,
      completion = ApiThrows ''401 Incorrect API key''\<rparr>"

definition world_empty :: world where
  "world_empty =
     \<lparr>run = (\<lambda>a i. Inl ''401 Incorrect API key''), client = True, completion = ApiReturns []\<rparr>"

section \<open>Facts about the maps, the dispatcher and the updates\<close>



lemma processAgentTask_succeeds:
  "\<exists>b. processAgentTask e agent task conv context = Success b"
  by (simp add: processAgentTask_def Let_def)





lemma get_prop_ctx0: "get_prop ctx0 ''conversationId'' = Inr (JStr ''c1'')"
  by (simp add: ctx0_def)

lemma Map_key_ctx0: "Map_key e (js_or (JStr ''c1'') (JStr u)) = ByValue (JStr ''c1'')"
  by (simp add: Map_key_def js_or_def)

lemma bag_of_ctx0: "bag_of ctx0 = bag0"
  by (simp add: ctx0_def bag0_def)

lemma ctx0_object: "ctx0 \<noteq> JNull" "ctx0 \<noteq> JUndefined"
  by (simp_all add: ctx0_def)

lemma dispatch_eq:
  "dispatch e c names (rs, cs)
     = (rs @ map (\<lambda>n. executeTool e n c) (filter (\<lambda>n. tools_get (to_string n) \<noteq> None) names),
        cs @ map (\<lambda>n. (n, executeTool e n c))
               (filter (\<lambda>n. tools_get (to_string n) \<noteq> None) names))"
  by (induction names arbitrary: rs cs) (simp_all add: Let_def)

lemma executePlan_array:
  "p_requiredTools pl = JArr names \<Longrightarrow>
     executePlan e agent pl c
       = \<lparr>x_results = map (\<lambda>n. executeTool e n c)
                         (filter (\<lambda>n. tools_get (to_string n) \<noteq> None) names),
          x_toolCalls = map (\<lambda>n. (n, executeTool e n c))
                          (filter (\<lambda>n. tools_get (to_string n) \<noteq> None) names),
          x_status = ''completed'', x_error = None\<rparr>"
  by (simp add: executePlan_def dispatch_eq)


lemma executePlan_skips:
  assumes "p_requiredTools pl = JArr names"
      and "tools_get (to_string n) = None"
  shows "n \<notin> fst ` set (x_toolCalls (executePlan e agent pl c))"
  using assms(2) by (auto simp add: executePlan_array [OF assms(1)])





lemma updated_not_allowed: "''updated'' \<notin> set allowedUpdates"
  by (simp add: allowedUpdates_def)

lemma runAgents_fallback:
  "useFallback s \<Longrightarrow>
     runAgents s reqs = (map (\<lambda>(w, agentType, input). runFallbackAgent w agentType input) reqs, s)"
  by (induction reqs) (auto simp add: runAgent_def)

lemma runFallbackAgent_completion_throws:
  "createChatCompletion (client w) (completion w) = Inl msg \<Longrightarrow>
     runFallbackAgent w agentType input
       = RunFailure ''Fallback agent failed: Failed to get response from fallback implementation''"
  by (simp add: runFallbackAgent_def chat_def Let_def split: prod.splits)

lemma primary_down: "primary world_down constructor ''math'' ''What is 2 + 2?'' = Inl ''401 Incorrect API key''"
  by (simp add: primary_def startsWith_def constructor_def initializeDefaultAgents_def Let_def world_down_def)

lemma primary_up:
  "primary world_up (constructor\<lparr>useFallback := True\<rparr>) ''history'' ''When did the war end?''
     = Inr (RunSuccess (JStr ''1945'') (JStr ''History Tutor'') (JArr []) (JArr []))"
  by (simp add: primary_def startsWith_def constructor_def initializeDefaultAgents_def Let_def world_up_def js_or_def)

lemma fallback_up:
  "runFallbackAgent world_up ''history'' ''When did the war end?''
     = RunSuccess (JStr ''It ended in 1945.'') (JStr ''History Tutor'') (JArr []) (JArr [])"
  by (simp add: runFallbackAgent_def configure_def chat_def createChatCompletion_def world_up_def)

lemma history_matches_war: "isHistoryQuestion ''What year did World War II end?''"
  by code_simp
lemma math_misses_war: "\<not> isMathQuestion ''What year did World War II end?''"
  by code_simp
lemma history_misses_solve: "\<not> isHistoryQuestion ''Solve for x: 2x + 4 = 10''"
  by code_simp
lemma math_matches_solve: "isMathQuestion ''Solve for x: 2x + 4 = 10''"
  by code_simp
lemma history_misses_joke: "\<not> isHistoryQuestion ''Tell me a joke''"
  by code_simp
lemma math_misses_joke: "\<not> isMathQuestion ''Tell me a joke''"
  by code_simp
lemma history_matches_both: "isHistoryQuestion ''What year is x?''"
  by code_simp
lemma math_matches_both: "isMathQuestion ''What year is x?''"
  by code_simp

section \<open>The task pipeline\<close>







section \<open>The fallback of the OpenAIAgentsSDK\<close>

text \<open>
  C3. The flag \<^verbatim>\<open>useFallback\<close> is false in a new instance. A run whose primary path
  throws while the flag is false sets it and answers through \<^verbatim>\<open>runFallbackAgent\<close>; a
  run whose primary path returns leaves it false. Once the flag is true, every run, of
  any agent type and whatever the primary path would now do, is the run of
  \<^verbatim>\<open>runFallbackAgent\<close> and leaves the state as it is, so the same holds for every
  later request. When the completion request of the fallback throws, the fallback
  returns \<^verbatim>\<open>{success: false, error}\<close>.
\<close>

theorem useFallback_sticky:
  "\<not> useFallback constructor
   \<and> useFallback (snd (runAgent w s agentType input))
       = (useFallback s \<or> (\<exists>msg. primary w s agentType input = Inl msg))
   \<and> (\<forall>msg. \<not> useFallback s \<and> primary w s agentType input = Inl msg \<longrightarrow>
         runAgent w s agentType input
           = (runFallbackAgent w agentType input, s\<lparr>useFallback := True\<rparr>))
   \<and> (\<forall>r. \<not> useFallback s \<and> primary w s agentType input = Inr r \<longrightarrow>
         runAgent w s agentType input = (r, s))
   \<and> (useFallback s \<longrightarrow>
         runAgent w s agentType input = (runFallbackAgent w agentType input, s))
   \<and> (useFallback s \<longrightarrow>
         runAgents s reqs
           = (map (\<lambda>(w', agentType', input'). runFallbackAgent w' agentType' input') reqs, s))
   \<and> (\<forall>msg. createChatCompletion (client w) (completion w) = Inl msg \<longrightarrow>
         runFallbackAgent w agentType input
           = RunFailure
               ''Fallback agent failed: Failed to get response from fallback implementation'')"
proof -
  have flag: "useFallback (snd (runAgent w s agentType input))
                = (useFallback s \<or> (\<exists>msg. primary w s agentType input = Inl msg))"
    by (cases "primary w s agentType input") (simp_all add: runAgent_def)
  show ?thesis
    using flag
    by (simp add: constructor_def runAgent_def runAgents_fallback
          runFallbackAgent_completion_throws)
qed

text \<open>
  C3, at the example: the first run fails on a refused key and sets the flag; afterwards
  a history question is answered by the fallback although the primary path would succeed.
\<close>

theorem useFallback_sticky_witness:
  "\<not> useFallback constructor
   \<and> primary world_up constructor ''history'' ''When did the war end?''
       = Inr (RunSuccess (JStr ''1945'') (JStr ''History Tutor'') (JArr []) (JArr []))
   \<and> runAgent world_up constructor ''history'' ''When did the war end?''
       = (RunSuccess (JStr ''1945'') (JStr ''History Tutor'') (JArr []) (JArr []), constructor)
   \<and> primary world_down constructor ''math'' ''What is 2 + 2?'' = Inl ''401 Incorrect API key''
   \<and> runAgent world_down constructor ''math'' ''What is 2 + 2?''
       = (RunFailure ''Fallback agent failed: Failed to get response from fallback implementation'',
          constructor\<lparr>useFallback := True\<rparr>)
   \<and> useFallback (constructor\<lparr>useFallback := True\<rparr>)
   \<and> primary world_up (constructor\<lparr>useFallback := True\<rparr>) ''history'' ''When did the war end?''
       = Inr (RunSuccess (JStr ''1945'') (JStr ''History Tutor'') (JArr []) (JArr []))
   \<and> runAgent world_up (constructor\<lparr>useFallback := True\<rparr>) ''history'' ''When did the war end?''
       = (RunSuccess (JStr ''It ended in 1945.'') (JStr ''History Tutor'') (JArr []) (JArr []),
          constructor\<lparr>useFallback := True\<rparr>)
   \<and> runAgents (constructor\<lparr>useFallback := True\<rparr>)
         [(world_up, ''history'', ''When did the war end?''),
          (world_down, ''math'', ''What is 2 + 2?'')]
       = ([RunSuccess (JStr ''It ended in 1945.'') (JStr ''History Tutor'') (JArr []) (JArr []),
           RunFailure ''Fallback agent failed: Failed to get response from fallback implementation''],
          constructor\<lparr>useFallback := True\<rparr>)
   \<and> createChatCompletion (client world_down) (completion world_down)
       = Inl ''OpenAI API Error: 401 Incorrect API key''"
proof -
  have f: "\<not> useFallback constructor"
    by (simp add: constructor_def)
  have t: "useFallback (constructor\<lparr>useFallback := True\<rparr>)"
    by simp
  have c: "createChatCompletion (client world_down) (completion world_down)
             = Inl ''OpenAI API Error: 401 Incorrect API key''"
    by (simp add: createChatCompletion_def world_down_def)
  have u: "primary world_up constructor ''history'' ''When did the war end?''
             = Inr (RunSuccess (JStr ''1945'') (JStr ''History Tutor'') (JArr []) (JArr []))"
    by (simp add: primary_def startsWith_def constructor_def initializeDefaultAgents_def
          Let_def world_up_def js_or_def)
  show ?thesis
    using f t c u primary_down primary_up fallback_up
      useFallback_sticky [where s = constructor and w = world_up and agentType = "''history''"
        and input = "''When did the war end?''" and reqs = "[]"]
      useFallback_sticky [where s = constructor and w = world_down and agentType = "''math''"
        and input = "''What is 2 + 2?''" and reqs = "[]"]
      useFallback_sticky [where s = "constructor\<lparr>useFallback := True\<rparr>" and w = world_up
        and agentType = "''history''" and input = "''When did the war end?''"
        and reqs = "[(world_up, ''history'', ''When did the war end?''),
                     (world_down, ''math'', ''What is 2 + 2?'')]"]
      useFallback_sticky [where s = "constructor\<lparr>useFallback := True\<rparr>" and w = world_down
        and agentType = "''math''" and input = "''What is 2 + 2?''" and reqs = "[]"]
    by simp
qed

text \<open>
  C4. In the triage branch of the fallback, the question about the year World War II
  ended matches the history pattern only and gets the history prompt; the equation
  matches the math pattern only and gets the math prompt; the request for a joke matches
  neither and gets the general prompt; every input that matches both patterns gets the
  general prompt too.
\<close>

theorem triage_routing:
  "isHistoryQuestion ''What year did World War II end?''
   \<and> \<not> isMathQuestion ''What year did World War II end?''
   \<and> configure ''triage'' ''What year did World War II end?'' = history_via_triage
   \<and> isMathQuestion ''Solve for x: 2x + 4 = 10''
   \<and> \<not> isHistoryQuestion ''Solve for x: 2x + 4 = 10''
   \<and> configure ''triage'' ''Solve for x: 2x + 4 = 10'' = math_via_triage
   \<and> \<not> isHistoryQuestion ''Tell me a joke''
   \<and> \<not> isMathQuestion ''Tell me a joke''
   \<and> configure ''triage'' ''Tell me a joke'' = general_via_triage
   \<and> (\<forall>input. isHistoryQuestion input \<and> isMathQuestion input \<longrightarrow>
         configure ''triage'' input = general_via_triage)
   \<and> fst history_via_triage = ''History Tutor (via Triage)''
   \<and> fst math_via_triage = ''Math Tutor (via Triage)''
   \<and> fst general_via_triage = ''General Assistant (via Triage)''"
  using history_matches_war math_misses_war history_misses_solve math_matches_solve history_misses_joke math_misses_joke
  by (simp add: configure_def history_via_triage_def math_via_triage_def general_via_triage_def)

text \<open>C4, at an input that matches both patterns: a year and an unknown \<^verbatim>\<open>x\<close>.\<close>

theorem triage_routing_witness:
  "isHistoryQuestion ''What year is x?'' \<and> isMathQuestion ''What year is x?''
   \<and> configure ''triage'' ''What year is x?'' = general_via_triage"
  using history_matches_both math_matches_both triage_routing
  by blast

section \<open>The agent registry\<close>

text \<open>
  C5. A run for an agent id that is not in the registry returns
  \<^verbatim>\<open>{success: false, error: 'Agent not found', agentId, task}\<close> and leaves the whole
  state as it was: no conversation is created and no turn is appended.
\<close>

theorem executeAgent_unknown_agent:
  "Map_get (agents s) agentId = None \<Longrightarrow>
     executeAgent e s agentId task context = (Failure ''Agent not found'' agentId task, s)"
  by (simp add: executeAgent_def Let_def)

text \<open>C5, at the example: the id \<^verbatim>\<open>zz\<close> is not registered.\<close>

theorem executeAgent_unknown_agent_witness:
  "Map_get (agents sdk0) ''zz'' = None \<and>
   executeAgent env_down sdk0 ''zz'' ''hello'' ctx0
     = (Failure ''Agent not found'' ''zz'' ''hello'', sdk0)"
  using executeAgent_unknown_agent [of sdk0 "''zz''" env_down "''hello''" ctx0]
  by (simp add: sdk0_def)

text \<open>
  C6. A run never touches the agents: the list of conversations an agent carries is after
  the run what it was before, and \<^verbatim>\<open>listAgents\<close> reports as \<^verbatim>\<open>conversationCount\<close>
  the length of that list, before and after alike. The run is recorded in the
  conversation store only.
\<close>

theorem executeAgent_keeps_agents:
  "agents (snd (executeAgent e s agentId task context)) = agents s
   \<and> listAgents (snd (executeAgent e s agentId task context)) = listAgents s
   \<and> map s_conversationCount (l_agents (listAgents s))
       = map (\<lambda>a. length (a_conversations (snd a))) (agents s)"
  by (simp add: executeAgent_def Let_def listAgents_def Map_values_def summarize_def
        split: option.splits sum.splits)

text \<open>C6, at the example: after a run the agent is the one stored, its count is zero.\<close>

theorem executeAgent_keeps_agents_witness:
  "agents (snd (executeAgent env_down sdk0 ''a1'' ''hello'' ctx0)) = [(''a1'', agent0)]
   \<and> map s_conversationCount (l_agents (listAgents sdk0)) = [0]"
  using executeAgent_keeps_agents [of env_down sdk0 "''a1''" "''hello''" ctx0]
  by (simp add: sdk0_def agent0_def)

text \<open>
  C6 as the specification words it fails at the example: the run uses the conversation
  \<^verbatim>\<open>c1\<close> with the agent \<^verbatim>\<open>a1\<close>, and afterwards the agent's list of conversations is
  still empty and \<^verbatim>\<open>listAgents\<close> reports the count zero.
\<close>

theorem executeAgent_conversations_counterexample:
  "map fst (conversations (snd (executeAgent env_down sdk0 ''a1'' ''hello'' ctx0)))
     = [ByValue (JStr ''c1'')]
   \<and> map c_agentId (map snd (conversations (snd (executeAgent env_down sdk0 ''a1'' ''hello'' ctx0))))
        = [''a1'']
   \<and> map a_conversations (map snd (agents (snd (executeAgent env_down sdk0 ''a1'' ''hello'' ctx0))))
        = [[]]
   \<and> map s_conversationCount
         (l_agents (listAgents (snd (executeAgent env_down sdk0 ''a1'' ''hello'' ctx0)))) = [0]"
  by (simp add: executeAgent_def Let_def ctx0_object get_prop_ctx0 Map_key_ctx0 sdk0_def
        Map_has_def listAgents_def Map_values_def summarize_def agent0_def)




section \<open>The dispatcher\<close>

text \<open>
  C8. The code at an input where it departs from the claim: the agent declares the tool
  \<^verbatim>\<open>toString\<close>, the analysis completion is not JSON, so the plan requires the agent's
  tools. No tool is registered under \<^verbatim>\<open>toString\<close>, but the test
  \<^verbatim>\<open>this.tools[toolName]\<close> finds the method every object inherits: the run succeeds
  and the name appears in \<^verbatim>\<open>toolCalls\<close> and in the results, with a failure result.
\<close>

theorem executePlan_inherited_name:
  "''toString'' \<notin> set initializeTools
   \<and> a_tools agent1 = JArr [JStr ''toString'']
   \<and> success (fst (executeAgent env_plain sdk1 ''a2'' ''hello'' ctx0))
   \<and> p_requiredTools (r_plan (the_outcome (fst (executeAgent env_plain sdk1 ''a2'' ''hello'' ctx0))))
       = JArr [JStr ''toString'']
   \<and> r_toolCalls (the_outcome (fst (executeAgent env_plain sdk1 ''a2'' ''hello'' ctx0)))
       = [(JStr ''toString'',
           JObj [(''success'', JBool False),
                 (''error'', JStr ''Tool toString requires additional context''),
                 (''tool'', JStr ''toString'')])]
   \<and> x_results (r_execution (the_outcome (fst (executeAgent env_plain sdk1 ''a2'' ''hello'' ctx0))))
       = [JObj [(''success'', JBool False),
                 (''error'', JStr ''Tool toString requires additional context''),
                 (''tool'', JStr ''toString'')]]"
proof -
  have d: "createChatCompletion (openai env_plain) (create env_plain st) = Inr ''Sure.''" for st
    by (simp add: createChatCompletion_def env_plain_def)
  have p: "JSON_parse env_plain ''Sure.'' = None"
    by (simp add: env_plain_def)
  have an: "analyzeTask env_plain agent1 ''hello'' bag0
              = JObj [(''taskType'', JStr ''general''), (''requiredTools'', JArr [JStr ''toString'']),
                     (''complexity'', JStr ''medium''),
                     (''estimatedSteps'',
                        JArr [JStr ''Analyze task'', JStr ''Execute'', JStr ''Respond'']),
                     (''rawAnalysis'', JStr ''Sure.'')]"
    by (simp add: analyzeTask_def d p agent1_def)
  have pl: "createExecutionPlan env_plain agent1 ''hello'' (analyzeTask env_plain agent1 ''hello'' bag0) bag0
              = \<lparr>p_steps = ''Sure.'', p_requiredTools = JArr [JStr ''toString''],
                 p_complexity = JStr ''medium'', p_error = None\<rparr>"
    by (simp add: an createExecutionPlan_def d js_or_def)
  have t: "tools_get ''toString'' = Some Inherited"
    by (simp add: tools_get_def Object_prototype_def)
  have ex: "executePlan env_plain agent1
              \<lparr>p_steps = ''Sure.'', p_requiredTools = JArr [JStr ''toString''],
                 p_complexity = JStr ''medium'', p_error = None\<rparr> bag0
            = \<lparr>x_results = [failure ''Tool toString requires additional context'' (JStr ''toString'')],
               x_toolCalls = [(JStr ''toString'',
                   failure ''Tool toString requires additional context'' (JStr ''toString''))],
               x_status = ''completed'', x_error = None\<rparr>"
    by (simp add: executePlan_def t executeTool_def executeTool_try_def Let_def)
  have r: "fst (executeAgent env_plain sdk1 ''a2'' ''hello'' ctx0)
             = processAgentTask env_plain agent1 ''hello''
                 \<lparr>c_id = JStr ''c1'', c_agentId = ''a2'', c_messages = [], c_created = new_Date env_plain 0\<rparr> bag0"
    by (simp add: executeAgent_def Let_def ctx0_object get_prop_ctx0 Map_key_ctx0 bag_of_ctx0
          sdk1_def Map_has_def js_or_def)
  have at: "a_tools agent1 = JArr [JStr ''toString'']"
    by (simp add: agent1_def)
  show ?thesis
    by (simp add: r processAgentTask_def Let_def pl ex initializeTools_def at failure_def)
qed



section \<open>An empty completion in the fallback\<close>

text \<open>
  C10. When the completion of the fallback arrives and its text is the empty string,
  \<^verbatim>\<open>chat\<close> reports success with that empty text, and \<^verbatim>\<open>runFallbackAgent\<close> returns
  \<^verbatim>\<open>{success: false, error}\<close>: the success branch needs the text to be truthy.
\<close>

theorem runFallbackAgent_empty_response:
  "createChatCompletion (client w) (completion w) = Inr [] \<Longrightarrow>
     cr_success (chat (client w) (completion w))
     \<and> cr_response (chat (client w) (completion w)) = JStr []
     \<and> runFallbackAgent w agentType input
         = RunFailure ''Fallback agent failed: Failed to get response from fallback implementation''"
  by (simp add: runFallbackAgent_def chat_def Let_def split: prod.splits)

text \<open>C10, at the example: the client answers with the empty string.\<close>

theorem runFallbackAgent_empty_response_witness:
  "createChatCompletion (client world_empty) (completion world_empty) = Inr []
   \<and> cr_success (chat (client world_empty) (completion world_empty))
   \<and> runFallbackAgent world_empty ''math'' ''What is 2 + 2?''
       = RunFailure ''Fallback agent failed: Failed to get response from fallback implementation''"
proof -
  have h: "createChatCompletion (client world_empty) (completion world_empty) = Inr []"
    by (simp add: createChatCompletion_def world_empty_def)
  show ?thesis
    using h runFallbackAgent_empty_response [OF h, of "''math''" "''What is 2 + 2?''"]
    by simp
qed

end
